theory Spec2Isabelle
  imports Complex_Main
begin

section \<open>MCVirt storage provisioning: volumes, backends and the hard-drive factory\<close>

text \<open>
  A shallow embedding of \<^verbatim>\<open>mcvirt/storage/lvm.py\<close>,
  \<^verbatim>\<open>mcvirt/virtual_machine/hard_drive/local.py\<close>,
  \<^verbatim>\<open>mcvirt/virtual_machine/hard_drive/factory.py\<close> and
  \<^verbatim>\<open>mcvirt/rpc/pyro_object.py\<close>. Every method is a function named
  \<open>Class_method\<close>; an exception is the left injection of a sum; what a method does
  beyond returning (commands run, remote calls made, the object cache) is returned
  beside the result.
\<close>

subsection \<open>Exceptions\<close>

text \<open>
  The exception classes of \<^verbatim>\<open>mcvirt.exceptions\<close> that the modelled code raises or
  catches, the Python built-in ones it can raise, and \<open>CollaboratorError\<close> for whatever
  a collaborator outside these files raises. An exception carries its message;
  \<open>InsufficientSpaceException\<close> carries the three values its message is formatted
  from (\<^verbatim>\<open>%i\<close> requested, \<^verbatim>\<open>%i\<close> free, \<^verbatim>\<open>%s\<close> host name).
\<close>

datatype error =
    UnknownStorageTypeException string
  | UnknownStorageBackendException string
  | InsufficientSpaceException int int string
  | ExternalStorageCommandErrorException string
  | MCVirtCommandException string
  | CannotMigrateLocalDiskException string
  | VmAlreadyStartedException string
  | VmIsCloneException string
  | InvalidStorageConfiguration string
  | NotImplementedError
  | TypeError string
  | KeyError string
  | ValueError string
  | AttributeError string
  | CollaboratorError string

subsection \<open>Python values and built-ins\<close>

text \<open>A value that is \<^verbatim>\<open>None\<close> or a \<^verbatim>\<open>str\<close>; it is true when it is a non-empty string.\<close>

type_synonym pystr = "string option"

fun truthy :: "pystr \<Rightarrow> bool" where
  "truthy None = False"
| "truthy (Some s) = (s \<noteq> [])"

text \<open>\<^verbatim>\<open>'%s' % v\<close> for such a value.\<close>

fun str_pystr :: "pystr \<Rightarrow> string" where
  "str_pystr None = ''None''"
| "str_pystr (Some s) = s"

text \<open>\<^verbatim>\<open>'%s' % n\<close> for an integer: its decimal numeral.\<close>

fun str_nat :: "nat \<Rightarrow> string" where
  "str_nat n =
     (if n < 10 then [''0123456789'' ! n]
      else str_nat (n div 10) @ [''0123456789'' ! (n mod 10)])"

definition str_int :: "int \<Rightarrow> string" where
  "str_int i = (if i < 0 then CHR ''-'' # str_nat (nat (- i)) else str_nat (nat i))"

text \<open>
  \<^verbatim>\<open>str.strip()\<close> removes the bytes space, \<^verbatim>\<open>\t \n \r \x0b \x0c\<close> from both ends.
\<close>

definition is_space :: "char \<Rightarrow> bool" where
  "is_space c = (c \<in> set [CHR '' '', CHR 0x09, CHR 0x0A, CHR 0x0D, CHR 0x0B, CHR 0x0C])"

definition strip :: "string \<Rightarrow> string" where
  "strip s = rev (dropWhile is_space (rev (dropWhile is_space s)))"

definition is_digit :: "char \<Rightarrow> bool" where
  "is_digit c = (c \<in> set ''0123456789'')"

definition digit_value :: "char \<Rightarrow> nat" where
  "digit_value c = of_char c - 48"

definition digits_value :: "string \<Rightarrow> nat" where
  "digits_value ds = foldl (\<lambda>n c. 10 * n + digit_value c) 0 ds"



definition split_sign :: "string \<Rightarrow> bool \<times> string" where
  "split_sign s =
     (case s of
        [] \<Rightarrow> (False, [])
      | c # r \<Rightarrow> if c = CHR ''-'' then (True, r) else if c = CHR ''+'' then (False, r) else (False, s))"




text \<open>
  \<^verbatim>\<open>int(s)\<close> on a \<^verbatim>\<open>str\<close>: surrounding whitespace is stripped; an optional sign and
  at least one digit; anything else is a \<^verbatim>\<open>ValueError\<close>.
\<close>

definition py_int :: "string \<Rightarrow> error + int" where
  "py_int s =
     (let (neg, ds) = split_sign (strip s) in
      if ds \<noteq> [] \<and> list_all is_digit ds
      then Inr (if neg then - int (digits_value ds) else int (digits_value ds))
      else Inl (ValueError ''invalid literal for int() with base 10''))"

subsection \<open>The node's operating system: \<^verbatim>\<open>mcvirt.system.System\<close> and \<^verbatim>\<open>os.path\<close>\<close>

text \<open>
  What the node answers: \<open>run\<close> gives the exit code, standard output and standard
  error of a command in a working directory; \<open>failure_text\<close> is the text
  (\<^verbatim>\<open>str(exc)\<close>) of the \<^verbatim>\<open>MCVirtCommandException\<close> raised for a failed command, which
  carries the captured output; \<open>lexists\<close> and \<open>exists\<close> are \<^verbatim>\<open>os.path.lexists\<close> and
  \<^verbatim>\<open>os.path.exists\<close>; \<open>BASE_STORAGE_DIR\<close> is the constant of
  \<^verbatim>\<open>mcvirt.constants.DirectoryLocation\<close>.
\<close>

record system =
  run :: "string list \<Rightarrow> string option \<Rightarrow> int \<times> string \<times> string"
  failure_text :: "string list \<Rightarrow> int \<times> string \<times> string \<Rightarrow> string"
  lexists :: "string \<Rightarrow> bool"
  exists :: "string \<Rightarrow> bool"
  BASE_STORAGE_DIR :: string

text \<open>
  A method that runs commands returns its result, or the exception it raises, and the
  list of the commands it ran, in order.
\<close>

type_synonym 'a io = "(error + 'a) \<times> string list list"

text \<open>
  Modelled from the spec: \<^verbatim>\<open>System.runCommand(command_list, raise_exception_on_failure=True, cwd=None)\<close>
  of \<^verbatim>\<open>mcvirt/system.py\<close>, which is not among the source files. The spec gives it as
  \<^verbatim>\<open>run(argv) -> (exitCode, stdout, stderr)\<close>, "raising a command-failure signal on
  non-zero exit"; the callers pass \<^verbatim>\<open>False\<close> as second argument to have the
  triple returned on failure too.
\<close>

definition runCommand ::
  "system \<Rightarrow> string list \<Rightarrow> bool \<Rightarrow> string option \<Rightarrow> (int \<times> string \<times> string) io" where
  "runCommand sys command_list raise_exception_on_failure cwd =
     (let (rc, out, err) = run sys command_list cwd in
      if rc \<noteq> 0 \<and> raise_exception_on_failure
      then (Inl (MCVirtCommandException (failure_text sys command_list (rc, out, err))), [command_list])
      else (Inr (rc, out, err), [command_list]))"

text \<open>
  \<^verbatim>\<open>except MCVirtCommandException, exc: raise ExternalStorageCommandErrorException(prefix + str(exc))\<close>:
  the handler of the volume methods. Any other exception passes through it.
\<close>

fun except_MCVirtCommandException :: "string \<Rightarrow> error \<Rightarrow> error" where
  "except_MCVirtCommandException prefix (MCVirtCommandException exc) =
     ExternalStorageCommandErrorException (prefix @ exc)"
| "except_MCVirtCommandException prefix e = e"

subsection \<open>\<^verbatim>\<open>mcvirt/storage/lvm.py\<close>\<close>

text \<open>
  A storage backend as these files read it: its name, its location (the volume group;
  \<^verbatim>\<open>get_location()\<close> of the base class, which is not among the source files, is
  this attribute) and its \<open>shared\<close> flag.
\<close>

record storage_backend =
  sb_name :: string
  sb_location :: string
  sb_shared :: bool

definition get_location :: "storage_backend \<Rightarrow> string" where
  "get_location self = sb_location self"

record LvmVolume =
  vol_name :: string
  vol_storage_backend :: storage_backend

definition Lvm_check_exists_local :: "system \<Rightarrow> string \<Rightarrow> bool io" where
  "Lvm_check_exists_local sys volume_group =
     (case runCommand sys [''vgs'', ''|'', ''grep'', volume_group] False (Some (BASE_STORAGE_DIR sys)) of
        (Inl e, cmds) \<Rightarrow> (Inl e, cmds)
      | (Inr (_, out, _), cmds) \<Rightarrow> (Inr (out \<noteq> []), cmds))"


definition LvmVolume_get_path :: "LvmVolume \<Rightarrow> string" where
  "LvmVolume_get_path self = ''/dev/'' @ get_location (vol_storage_backend self) @ ''/'' @ vol_name self"

definition LvmVolume_check_exists :: "system \<Rightarrow> LvmVolume \<Rightarrow> bool" where
  "LvmVolume_check_exists sys self = lexists sys (LvmVolume_get_path self)"

definition LvmVolume_is_active :: "system \<Rightarrow> LvmVolume \<Rightarrow> bool" where
  "LvmVolume_is_active sys self = exists sys (LvmVolume_get_path self)"

definition LvmVolume_create :: "system \<Rightarrow> LvmVolume \<Rightarrow> int \<Rightarrow> unit io" where
  "LvmVolume_create sys self sz =
     (let command_args = [''/sbin/lvcreate'', get_location (vol_storage_backend self),
                          ''--name'', vol_name self, ''--size'', str_int sz @ ''M'']
      in case runCommand sys command_args True None of
           (Inl exc, cmds) \<Rightarrow>
             (Inl (except_MCVirtCommandException
                     (''Error whilst creating disk logical volume:'' @ [CHR 0x0A]) exc), cmds)
         | (Inr _, cmds) \<Rightarrow> (Inr (), cmds))"

definition LvmVolume_delete :: "system \<Rightarrow> LvmVolume \<Rightarrow> bool \<Rightarrow> unit io" where
  "LvmVolume_delete sys self ignore_non_existent =
     (let command_args = [''lvremove'', ''-f'', LvmVolume_get_path self]
      in if \<not> (ignore_non_existent \<and> \<not> LvmVolume_check_exists sys self)
         then (case runCommand sys command_args True None of
                 (Inl exc, cmds) \<Rightarrow>
                   (Inl (except_MCVirtCommandException
                           (''Error whilst removing logical volume:'' @ [CHR 0x0A]) exc), cmds)
               | (Inr _, cmds) \<Rightarrow> (Inr (), cmds))
         else (Inr (), []))"

definition LvmVolume_activate :: "system \<Rightarrow> LvmVolume \<Rightarrow> unit io" where
  "LvmVolume_activate sys self =
     (let command_args = [''lvchange'', ''-a'', ''y'', ''--yes'', LvmVolume_get_path self]
      in case runCommand sys command_args True None of
           (Inl exc, cmds) \<Rightarrow>
             (Inl (except_MCVirtCommandException
                     (''Error whilst activating logical volume:'' @ [CHR 0x0A]) exc), cmds)
         | (Inr _, cmds) \<Rightarrow> (Inr (), cmds))"

text \<open>The size \<open>sz\<close> is passed to the command as it is given, so it is a string here.\<close>

definition LvmVolume_snapshot :: "system \<Rightarrow> LvmVolume \<Rightarrow> LvmVolume \<Rightarrow> string \<Rightarrow> unit io" where
  "LvmVolume_snapshot sys self destination_volume sz =
     (case runCommand sys
             [''lvcreate'', ''--snapshot'', LvmVolume_get_path self,
              ''--name'', vol_name destination_volume, ''--size'', sz]
             True None of
        (Inl exc, cmds) \<Rightarrow> (Inl exc, cmds)
      | (Inr _, cmds) \<Rightarrow> (Inr (), cmds))"

definition LvmVolume_deactivate :: "system \<Rightarrow> LvmVolume \<Rightarrow> unit io" where
  "LvmVolume_deactivate sys self = (Inl NotImplementedError, [])"

definition LvmVolume_resize :: "system \<Rightarrow> LvmVolume \<Rightarrow> int \<Rightarrow> unit io" where
  "LvmVolume_resize sys self sz =
     (let command_args = [''/sbin/lvresize'', ''--size'', str_int sz @ ''M'',
                          LvmVolume_get_path self]
      in case runCommand sys command_args True None of
           (Inl exc, cmds) \<Rightarrow>
             (Inl (except_MCVirtCommandException
                     (''Error whilst resizing disk logical volume:'' @ [CHR 0x0A]) exc), cmds)
         | (Inr _, cmds) \<Rightarrow> (Inr (), cmds))"

text \<open>
  A call \<^verbatim>\<open>volume.resize(size, **keywords)\<close> with one positional argument. The method
  is \<^verbatim>\<open>def resize(self, size)\<close>: the positional argument binds \<open>size\<close>, so a keyword
  argument either names \<open>size\<close> again or names no parameter, and Python raises
  \<^verbatim>\<open>TypeError\<close> before the body runs. \<open>keywords\<close> lists the keyword names of the call.
\<close>

definition LvmVolume_resize_call :: "system \<Rightarrow> LvmVolume \<Rightarrow> int \<Rightarrow> string list \<Rightarrow> unit io" where
  "LvmVolume_resize_call sys self sz keywords =
     (case keywords of
        [] \<Rightarrow> LvmVolume_resize sys self sz
      | k # _ \<Rightarrow>
          (Inl (TypeError (if k = ''size''
                           then ''resize() got multiple values for keyword argument size''
                           else ''resize() got an unexpected keyword argument '' @ k)), []))"

definition LvmVolume_get_size :: "system \<Rightarrow> LvmVolume \<Rightarrow> int io" where
  "LvmVolume_get_size sys self =
     (let command_args = [''lvs'', ''--nosuffix'', ''--noheadings'', ''--units'', ''m'',
                          ''--options'', ''lv_size'', LvmVolume_get_path self]
      in case runCommand sys command_args True None of
           (Inl exc, cmds) \<Rightarrow>
             (Inl (except_MCVirtCommandException
                     (''Error whilst obtaining the size of the logical volume:'' @ [CHR 0x0A]) exc),
              cmds)
         | (Inr (_, command_output, _), cmds) \<Rightarrow>
             (let lv_size = takeWhile (\<lambda>c. c \<noteq> CHR ''.'') (strip command_output)
              in (py_int lv_size, cmds)))"

subsection \<open>\<^verbatim>\<open>mcvirt/virtual_machine/hard_drive/local.py\<close>\<close>

text \<open>
  A virtual machine, by what these files read of it: \<^verbatim>\<open>get_name()\<close>, the dictionary
  \<^verbatim>\<open>get_config_object().get_config()\<close>, \<^verbatim>\<open>getStorageType()\<close>,
  \<^verbatim>\<open>getAvailableNodes()\<close>, \<^verbatim>\<open>is_stopped\<close>, \<^verbatim>\<open>getCloneParent()\<close> (a name or
  \<^verbatim>\<open>None\<close>), \<^verbatim>\<open>getCloneChildren()\<close>, and \<^verbatim>\<open>_pyroUri.object\<close> when the object is a
  remote reference. A dictionary with string keys is an association list read with
  \<open>map_of\<close>.
\<close>

record virtual_machine =
  get_name :: string
  get_config :: "(string \<times> pystr) list"
  getStorageType :: pystr
  getAvailableNodes :: "string list"
  is_stopped :: bool
  getCloneParent :: pystr
  getCloneChildren :: "string list"
  pyroUri_object :: "string option"

record Local =
  local_disk_name :: string
  local_storage_backend :: storage_backend
  local_vm_object :: virtual_machine

text \<open>
  The collaborators of \<open>increase_size\<close> that are not among the source files, each given
  by what it answers: \<^verbatim>\<open>auth.assert_permission(PERMISSIONS.MODIFY_VM, vm_object)\<close> and
  \<^verbatim>\<open>self._ensure_exists()\<close> of the base class raise or return;
  \<^verbatim>\<open>SizeConverter.from_string(s, storage=True).to_bytes()\<close> raises or gives a number.
\<close>

record hard_drive_env =
  assert_permission :: "error option"
  ensure_exists :: "error option"
  from_string_to_bytes :: "string \<Rightarrow> error + int"

text \<open>The argument of \<open>increase_size\<close>: an \<^verbatim>\<open>int\<close>, or a string such as \<^verbatim>\<open>2GB\<close>.\<close>

datatype size_arg = IntSize int | StrSize string

text \<open>
  Modelled from the spec: \<^verbatim>\<open>self._get_volume(name)\<close> of the hard drive's base class,
  which is not among the source files. The spec's \<^verbatim>\<open>getVolume(name) -> Volume\<close> is "pure
  construction, no I/O"; the volume class of an \<open>Lvm\<close> backend is \<open>LvmVolume\<close>
  (\<^verbatim>\<open>Lvm._volume_class\<close>).
\<close>

definition get_volume :: "Local \<Rightarrow> string \<Rightarrow> LvmVolume" where
  "get_volume self nm = \<lparr>vol_name = nm, vol_storage_backend = local_storage_backend self\<rparr>"

definition Local_get_data_volume :: "Local \<Rightarrow> LvmVolume" where
  "Local_get_data_volume self = get_volume self (local_disk_name self)"

definition Local_increase_size ::
  "hard_drive_env \<Rightarrow> system \<Rightarrow> Local \<Rightarrow> size_arg \<Rightarrow> unit io" where
  "Local_increase_size env sys self increase_size =
     (case assert_permission env of
        Some e \<Rightarrow> (Inl e, [])
      | None \<Rightarrow>
          (case (case increase_size of
                   IntSize n \<Rightarrow> Inr n
                 | StrSize s \<Rightarrow> from_string_to_bytes env s) of
             Inl e \<Rightarrow> (Inl e, [])
           | Inr increase_size' \<Rightarrow>
               (case ensure_exists env of
                  Some e \<Rightarrow> (Inl e, [])
                | None \<Rightarrow>
                    if \<not> is_stopped (local_vm_object self)
                    then (Inl (VmAlreadyStartedException
                                 ''VM must be stopped before increasing disk size''), [])
                    else if truthy (getCloneParent (local_vm_object self))
                            \<or> getCloneChildren (local_vm_object self) \<noteq> []
                    then (Inl (VmIsCloneException
                                 ''Cannot increase the disk of a cloned VM or a clone.''), [])
                    else (let volume = Local_get_data_volume self
                          in LvmVolume_resize_call sys volume increase_size' [''increase'']))))"

definition Local_check_exists :: "system \<Rightarrow> Local \<Rightarrow> bool" where
  "Local_check_exists sys self = LvmVolume_check_exists sys (Local_get_data_volume self)"

definition Local_removeStorage :: "system \<Rightarrow> Local \<Rightarrow> unit io" where
  "Local_removeStorage sys self = LvmVolume_delete sys (Local_get_data_volume self) False"

definition Local_get_size :: "system \<Rightarrow> Local \<Rightarrow> int io" where
  "Local_get_size sys self = LvmVolume_get_size sys (Local_get_data_volume self)"

definition Local_create :: "system \<Rightarrow> Local \<Rightarrow> int \<Rightarrow> unit io" where
  "Local_create sys self sz = LvmVolume_create sys (Local_get_data_volume self) sz"

definition Local_preMigrationChecks :: "Local \<Rightarrow> error + unit" where
  "Local_preMigrationChecks self =
     (if \<not> sb_shared (local_storage_backend self)
      then Inl (CannotMigrateLocalDiskException
                  ''VMs using local disks on a non-shared backend cannot be migrated'')
      else Inr ())"

subsection \<open>\<^verbatim>\<open>mcvirt/rpc/pyro_object.py\<close>\<close>

text \<open>
  The hard drive classes of \<open>Factory.STORAGE_TYPES\<close>, and a hard drive object as the
  factory constructs it: its class and the arguments of the constructor. An object is
  identified by its position in the list of all objects constructed so far, so two
  references are the same object exactly when they are equal.
\<close>

datatype hard_drive_class = Local_class | Drbd_class

fun class_name :: "hard_drive_class \<Rightarrow> string" where
  "class_name Local_class = ''Local''"
| "class_name Drbd_class = ''Drbd''"

record hard_drive =
  hd_class :: hard_drive_class
  hd_vm_name :: string
  hd_disk_id :: "int option"
  hd_config :: "(string \<times> pystr) list"

text \<open>
  The Pyro daemon an object is registered with: the local instances by object
  identifier, and the hard drive objects registered with it, in order.
\<close>

record pyro_daemon =
  objectsById :: "string \<rightharpoonup> virtual_machine"
  registered :: "nat list"

text \<open>
  The factory: the class attribute \<open>CACHED_OBJECTS\<close>, every hard drive object
  constructed so far, and the attribute \<^verbatim>\<open>_pyroDaemon\<close>, absent until the factory is
  registered.
\<close>

record factory =
  CACHED_OBJECTS :: "(string \<times> int \<times> string) \<rightharpoonup> nat"
  objects :: "hard_drive list"
  pyroDaemon :: "pyro_daemon option"

definition PyroObject_pyro_initialised :: "factory \<Rightarrow> bool" where
  "PyroObject_pyro_initialised self = (pyroDaemon self \<noteq> None)"

definition PyroObject_register_object :: "factory \<Rightarrow> nat \<Rightarrow> factory" where
  "PyroObject_register_object self local_object =
     (if PyroObject_pyro_initialised self
      then self\<lparr>pyroDaemon :=
                  map_option (\<lambda>d. d\<lparr>registered := registered d @ [local_object]\<rparr>) (pyroDaemon self)\<rparr>
      else self)"

definition PyroObject_convert_remote_object ::
  "factory \<Rightarrow> virtual_machine \<Rightarrow> error + virtual_machine" where
  "PyroObject_convert_remote_object self remote_object =
     (if PyroObject_pyro_initialised self
      then (case pyroUri_object remote_object of
              None \<Rightarrow> Inl (AttributeError ''_pyroUri'')
            | Some uri \<Rightarrow>
                (case objectsById (the (pyroDaemon self)) uri of
                   None \<Rightarrow> Inl (KeyError uri)
                 | Some local_instance \<Rightarrow> Inr local_instance))
      else Inr remote_object)"

subsection \<open>\<^verbatim>\<open>mcvirt/virtual_machine/hard_drive/factory.py\<close>\<close>

text \<open>
  What the node and the cluster answer to the factory, for the collaborators that are
  not among the source files:
  \<^item> \<open>get_hostname\<close>: \<^verbatim>\<open>mcvirt.utils.get_hostname()\<close>;
  \<^item> \<open>is_cluster_master\<close>: \<^verbatim>\<open>self._is_cluster_master\<close>;
  \<^item> \<open>get_local_hostname\<close>: \<^verbatim>\<open>cluster.get_local_hostname()\<close>;
  \<^item> \<open>get_all_local\<close>: \<^verbatim>\<open>storage_factory.get_all(available_on_local_node=True)\<close>;
  \<^item> \<open>get_all\<close>: \<^verbatim>\<open>storage_factory.get_all(nodes=nodes, drbd=flag)\<close>;
  \<^item> \<open>Drbd_isAvailable\<close>: \<^verbatim>\<open>Drbd.isAvailable(storage_factory, node_drbd)\<close>;
  \<^item> \<open>ensure_available_on_node\<close>, \<open>get_free_space\<close>: the methods of a storage backend;
    the free space is the number returned, an \<^verbatim>\<open>int\<close> or a finite \<^verbatim>\<open>float\<close>;
  \<^item> \<open>remote_get_object\<close>, \<open>remote_ensure_hdd_valid\<close>: what a remote node answers to
    \<^verbatim>\<open>storage_factory.get_object(name=...)\<close> and to
    \<^verbatim>\<open>hard_drive_factory.ensure_hdd_valid(...)\<close>, the error raised if any;
  \<^item> \<open>hard_drive_init\<close>: whether the constructor of a hard drive class raises;
  \<^item> \<open>auth_assert_permission\<close>: \<^verbatim>\<open>auth.assert_permission(PERMISSIONS.MODIFY_VM, vm_object)\<close>;
  \<^item> \<open>hard_drive_create\<close>: whether \<^verbatim>\<open>hdd_object.create(size)\<close> raises.
\<close>

record node =
  get_hostname :: string
  is_cluster_master :: bool
  get_local_hostname :: string
  get_all_local :: "storage_backend list"
  get_all :: "string list \<Rightarrow> bool \<Rightarrow> storage_backend list"
  Drbd_isAvailable :: bool
  ensure_available_on_node :: "storage_backend \<Rightarrow> error option"
  get_free_space :: "storage_backend \<Rightarrow> error + rat"
  remote_get_object :: "string \<Rightarrow> string \<Rightarrow> error option"
  remote_ensure_hdd_valid ::
    "string \<Rightarrow> int \<Rightarrow> string \<Rightarrow> string list \<Rightarrow> string \<Rightarrow> error option"
  hard_drive_init ::
    "hard_drive_class \<Rightarrow> virtual_machine \<Rightarrow> int option \<Rightarrow> (string \<times> pystr) list \<Rightarrow> error option"
  auth_assert_permission :: "virtual_machine \<Rightarrow> error option"
  hard_drive_create :: "hard_drive_class \<Rightarrow> int \<Rightarrow> error option"

text \<open>
  What a factory method does outside the factory: calls to remote nodes, and the
  creation of a hard drive's volume.
\<close>

datatype event =
    Remote_get_object string string
  | Remote_ensure_hdd_valid string int string "string list" string
  | HardDrive_create nat int

definition STORAGE_TYPES :: "hard_drive_class list" where
  "STORAGE_TYPES = [Local_class, Drbd_class]"

definition Factory_getStorageTypes :: "hard_drive_class list" where
  "Factory_getStorageTypes = STORAGE_TYPES"

text \<open>\<open>Local.isAvailable\<close> is in \<^verbatim>\<open>local.py\<close>; \<open>Drbd.isAvailable\<close> is the node's answer.\<close>

fun isAvailable :: "node \<Rightarrow> hard_drive_class \<Rightarrow> bool" where
  "isAvailable nd Local_class = (get_all_local nd \<noteq> [])"
| "isAvailable nd Drbd_class = Drbd_isAvailable nd"

definition Factory_getAvailableStorageTypes :: "node \<Rightarrow> hard_drive_class list" where
  "Factory_getAvailableStorageTypes nd = filter (isAvailable nd) STORAGE_TYPES"

definition Factory_getClass :: "pystr \<Rightarrow> error + hard_drive_class" where
  "Factory_getClass storage_type =
     (case find (\<lambda>hard_drive_class. storage_type = Some (class_name hard_drive_class))
             Factory_getStorageTypes of
        Some hard_drive_class \<Rightarrow> Inr hard_drive_class
      | None \<Rightarrow>
          Inl (UnknownStorageTypeException
                 (''Attempted to initialise an unknown storage type: '' @ str_pystr storage_type)))"

text \<open>
  \<open>getObject\<close>, lines 48 to 59: the storage type starts as that of the VM
  configuration if that is true, and the override \<open>storage_type\<close> is removed from the
  overrides, and used only if the storage type is still \<^verbatim>\<open>None\<close>.
\<close>

definition getObject_storage_type ::
  "pystr \<Rightarrow> (string \<times> pystr) list \<Rightarrow> pystr \<times> (string \<times> pystr) list" where
  "getObject_storage_type vm_config_storage_type config =
     (let storage_type = (if truthy vm_config_storage_type then vm_config_storage_type else None)
      in case map_of config ''storage_type'' of
           None \<Rightarrow> (storage_type, config)
         | Some v \<Rightarrow>
             (if storage_type = None then v else storage_type,
              filter (\<lambda>(k, _). k \<noteq> ''storage_type'') config))"

text \<open>Lines 61 to 63: the cache key.\<close>

definition getObject_cache_key ::
  "virtual_machine \<Rightarrow> int \<Rightarrow> pystr \<Rightarrow> string \<times> int \<times> string" where
  "getObject_cache_key vm disk_id storage_type =
     (let storage_type_key = (if truthy storage_type then the storage_type else [])
      in (get_name vm, disk_id, storage_type_key))"

definition Factory_getObject ::
  "node \<Rightarrow> factory \<Rightarrow> virtual_machine \<Rightarrow> int \<Rightarrow> (string \<times> pystr) list
     \<Rightarrow> (error + nat) \<times> factory" where
  "Factory_getObject nd self vm_object disk_id config =
     (case PyroObject_convert_remote_object self vm_object of
        Inl e \<Rightarrow> (Inl e, self)
      | Inr vm \<Rightarrow>
          (case map_of (get_config vm) ''storage_type'' of
             None \<Rightarrow> (Inl (KeyError ''storage_type''), self)
           | Some vm_config_storage_type \<Rightarrow>
               (let (storage_type, config') = getObject_storage_type vm_config_storage_type config;
                    cache_key = getObject_cache_key vm disk_id storage_type;
                    disable_cache = (length config' \<noteq> 0);
                    self1 = (if disable_cache \<and> CACHED_OBJECTS self cache_key \<noteq> None
                             then self\<lparr>CACHED_OBJECTS := (CACHED_OBJECTS self)(cache_key := None)\<rparr>
                             else self)
                in case CACHED_OBJECTS self1 cache_key of
                     Some cached \<Rightarrow> (Inr cached, self1)
                   | None \<Rightarrow>
                       (case Factory_getClass storage_type of
                          Inl e \<Rightarrow> (Inl e, self1)
                        | Inr cls \<Rightarrow>
                            (case hard_drive_init nd cls vm (Some disk_id) config' of
                               Some e \<Rightarrow> (Inl e, self1)
                             | None \<Rightarrow>
                                 (let hard_drive_object = length (objects self1);
                                      self2 = self1\<lparr>objects := objects self1 @
                                                [\<lparr>hd_class = cls, hd_vm_name = get_name vm,
                                                  hd_disk_id = Some disk_id, hd_config = config'\<rparr>]\<rparr>;
                                      self3 = PyroObject_register_object self2 hard_drive_object
                                  in if disable_cache then (Inr hard_drive_object, self3)
                                     else (Inr hard_drive_object,
                                           self3\<lparr>CACHED_OBJECTS :=
                                             (CACHED_OBJECTS self3)(cache_key \<mapsto> hard_drive_object)\<rparr>)))))))"

text \<open>
  \<open>ensure_hdd_valid\<close>, lines 92 to 106: the storage type given must be one the node
  has available; without one, the only available type is taken.
\<close>

definition ensure_hdd_valid_storage_type :: "node \<Rightarrow> pystr \<Rightarrow> error + string" where
  "ensure_hdd_valid_storage_type nd storage_type =
     (let available_storage_types = Factory_getAvailableStorageTypes nd
      in if truthy storage_type then
           (if the storage_type \<notin> set (map class_name available_storage_types)
            then Inl (UnknownStorageTypeException
                        (the storage_type @ '' is not supported by node '' @ get_hostname nd))
            else Inr (the storage_type))
         else if length available_storage_types > 1
           then Inl (UnknownStorageTypeException ''Storage type must be specified'')
         else if length available_storage_types = 1
           then Inr (class_name (available_storage_types ! 0))
         else Inl (UnknownStorageTypeException ''There are no storage types available''))"

text \<open>
  Lines 108 to 124: the storage backend given must be available on the node; without
  one, the only backend for the storage type and the nodes is taken.
\<close>

definition ensure_hdd_valid_storage_backend ::
  "node \<Rightarrow> string \<Rightarrow> string list \<Rightarrow> storage_backend option \<Rightarrow> error + storage_backend" where
  "ensure_hdd_valid_storage_backend nd storage_type nodes storage_backend =
     (case storage_backend of
        Some b \<Rightarrow>
          (case ensure_available_on_node nd b of
             Some e \<Rightarrow> Inl e
           | None \<Rightarrow> Inr b)
      | None \<Rightarrow>
          (let available_storage_backends = get_all nd nodes (storage_type = class_name Drbd_class)
           in if length available_storage_backends > 1
                then Inl (UnknownStorageBackendException ''Storage backend must be specified'')
              else if length available_storage_backends = 1
                then Inr (available_storage_backends ! 0)
              else Inl (UnknownStorageBackendException
                          ''There are no available storage backends'')))"

text \<open>Lines 133 to 141: the command run on one remote node.\<close>

definition remote_command ::
  "node \<Rightarrow> int \<Rightarrow> string \<Rightarrow> string list \<Rightarrow> storage_backend \<Rightarrow> string
     \<Rightarrow> error option \<times> event list" where
  "remote_command nd sz storage_type nodes storage_backend remote =
     (case remote_get_object nd remote (sb_name storage_backend) of
        Some e \<Rightarrow> (Some e, [Remote_get_object remote (sb_name storage_backend)])
      | None \<Rightarrow>
          (remote_ensure_hdd_valid nd remote sz storage_type nodes (sb_name storage_backend),
           [Remote_get_object remote (sb_name storage_backend),
            Remote_ensure_hdd_valid remote sz storage_type nodes (sb_name storage_backend)]))"

text \<open>
  Modelled from the spec: \<^verbatim>\<open>cluster.run_remote_command(callback_method, nodes)\<close> of the
  cluster, which is not among the source files. The spec gives it as
  \<^verbatim>\<open>runOnNodes(nodes, callback)\<close>, which "invokes a callback, parameterized with a
  per-node connection, against each listed node, surfacing the first remote error".
\<close>

fun run_remote_command ::
  "(string \<Rightarrow> error option \<times> event list) \<Rightarrow> string list \<Rightarrow> error option \<times> event list" where
  "run_remote_command callback_method [] = (None, [])"
| "run_remote_command callback_method (n # ns) =
     (case callback_method n of
        (Some e, evs) \<Rightarrow> (Some e, evs)
      | (None, evs) \<Rightarrow>
          (case run_remote_command callback_method ns of
             (r, evs') \<Rightarrow> (r, evs @ evs')))"

text \<open>\<^verbatim>\<open>'%i' % free\<close>: a number is cut to an integer, towards zero.\<close>

definition format_i :: "rat \<Rightarrow> int" where
  "format_i q = (if 0 \<le> q then \<lfloor>q\<rfloor> else \<lceil>q\<rceil>)"

definition Factory_ensure_hdd_valid ::
  "node \<Rightarrow> int \<Rightarrow> pystr \<Rightarrow> string list \<Rightarrow> storage_backend option
     \<Rightarrow> (error + string) \<times> event list" where
  "Factory_ensure_hdd_valid nd sz storage_type nodes storage_backend =
     (case ensure_hdd_valid_storage_type nd storage_type of
        Inl e \<Rightarrow> (Inl e, [])
      | Inr storage_type' \<Rightarrow>
          (case ensure_hdd_valid_storage_backend nd storage_type' nodes storage_backend of
             Inl e \<Rightarrow> (Inl e, [])
           | Inr storage_backend' \<Rightarrow>
               (case get_free_space nd storage_backend' of
                  Inl e \<Rightarrow> (Inl e, [])
                | Inr free \<Rightarrow>
                    if free < of_int sz
                    then (Inl (InsufficientSpaceException sz (format_i free) (get_hostname nd)), [])
                    else if is_cluster_master nd
                    then (let remote_nodes = filter (\<lambda>n. n \<noteq> get_local_hostname nd) nodes
                          in case run_remote_command
                                    (remote_command nd sz storage_type' nodes storage_backend')
                                    remote_nodes of
                               (Some e, evs) \<Rightarrow> (Inl e, evs)
                             | (None, evs) \<Rightarrow> (Inr storage_type', evs))
                    else (Inr storage_type', []))))"

definition Factory_create ::
  "node \<Rightarrow> factory \<Rightarrow> virtual_machine \<Rightarrow> int \<Rightarrow> pystr \<Rightarrow> pystr \<Rightarrow> storage_backend option
     \<Rightarrow> ((error + nat) \<times> factory) \<times> event list" where
  "Factory_create nd self vm_object sz storage_type driver storage_backend =
     (case PyroObject_convert_remote_object self vm_object of
        Inl e \<Rightarrow> ((Inl e, self), [])
      | Inr vm \<Rightarrow>
          (case auth_assert_permission nd vm of
             Some e \<Rightarrow> ((Inl e, self), [])
           | None \<Rightarrow>
               (let nodes = getAvailableNodes vm
                in case Factory_ensure_hdd_valid nd sz storage_type nodes storage_backend of
                     (Inl e, evs) \<Rightarrow> ((Inl e, self), evs)
                   | (Inr storage_type', evs) \<Rightarrow>
                       if truthy (getStorageType vm) \<and> storage_type' \<noteq> []
                          \<and> Some storage_type' \<noteq> getStorageType vm
                       then ((Inl (UnknownStorageTypeException
                                     ''Storage type does not match VMs current storage type''),
                              self), evs)
                       else
                         (case Factory_getClass (Some storage_type') of
                            Inl e \<Rightarrow> ((Inl e, self), evs)
                          | Inr cls \<Rightarrow>
                              (let config = [(''driver'', driver),
                                             (''storage_backend'', map_option sb_name storage_backend)]
                               in case hard_drive_init nd cls vm None config of
                                    Some e \<Rightarrow> ((Inl e, self), evs)
                                  | None \<Rightarrow>
                                      (let hdd_object = length (objects self);
                                           self1 = self\<lparr>objects := objects self @
                                                     [\<lparr>hd_class = cls, hd_vm_name = get_name vm,
                                                       hd_disk_id = None, hd_config = config\<rparr>]\<rparr>;
                                           self2 = PyroObject_register_object self1 hdd_object
                                       in case hard_drive_create nd cls sz of
                                            Some e \<Rightarrow>
                                              ((Inl e, self2), evs @ [HardDrive_create hdd_object sz])
                                          | None \<Rightarrow>
                                              ((Inr hdd_object, self2),
                                               evs @ [HardDrive_create hdd_object sz])))))))"

subsection \<open>Properties the specification names\<close>


text \<open>
  Every cached reference is an object that has been constructed. An empty cache has the
  property and \<open>getObject\<close> keeps it (lemmas \<open>allocated_empty\<close> and
  \<open>getObject_allocated\<close>).
\<close>

definition cached_objects_allocated :: "factory \<Rightarrow> bool" where
  "cached_objects_allocated self =
     (\<forall>k r. CACHED_OBJECTS self k = Some r \<longrightarrow> r < length (objects self))"

subsection \<open>Example values\<close>

definition example_backend :: storage_backend where
  "example_backend = \<lparr>sb_name = ''local-vg'', sb_location = ''vg0'', sb_shared = False\<rparr>"

definition example_volume :: LvmVolume where
  "example_volume = \<lparr>vol_name = ''mcvirt_vm-web-disk-1'', vol_storage_backend = example_backend\<rparr>"

definition example_snapshot_volume :: LvmVolume where
  "example_snapshot_volume =
     \<lparr>vol_name = ''mcvirt_vm-web-disk-1_snapshot'', vol_storage_backend = example_backend\<rparr>"

text \<open>A node on which every command fails with exit code 5 and no path exists.\<close>

definition failing_system :: system where
  "failing_system =
     \<lparr>run = (\<lambda>command_list cwd. (5, [], ''Volume group not found'')),
      failure_text = (\<lambda>command_list (rc, out, err). err),
      lexists = (\<lambda>path. False),
      exists = (\<lambda>path. False),
      BASE_STORAGE_DIR = ''/var/lib/mcvirt''\<rparr>"


definition stopped_vm :: virtual_machine where
  "stopped_vm =
     \<lparr>get_name = ''web'', get_config = [(''storage_type'', Some ''Local'')],
      getStorageType = Some ''Local'', getAvailableNodes = [''node1''],
      is_stopped = True, getCloneParent = None, getCloneChildren = [],
      pyroUri_object = None\<rparr>"

definition example_local :: Local where
  "example_local =
     \<lparr>local_disk_name = ''mcvirt_vm-web-disk-1'', local_storage_backend = example_backend,
      local_vm_object = stopped_vm\<rparr>"

text \<open>Collaborators that let \<open>increase_size\<close> through: permitted, the disk exists.\<close>

definition permissive_env :: hard_drive_env where
  "permissive_env =
     \<lparr>assert_permission = None, ensure_exists = None,
      from_string_to_bytes = (\<lambda>s. Inl (ValueError s))\<rparr>"

text \<open>
  A cluster master with one local backend holding 100 megabytes free, no DRBD, and a
  hard drive constructor that accepts the keyword \<open>driver\<close> only.
\<close>

definition example_node :: node where
  "example_node =
     \<lparr>get_hostname = ''node1'',
      is_cluster_master = True,
      get_local_hostname = ''node1'',
      get_all_local = [example_backend],
      get_all = (\<lambda>nodes drbd. if drbd then [] else [example_backend]),
      Drbd_isAvailable = False,
      ensure_available_on_node = (\<lambda>b. None),
      get_free_space = (\<lambda>b. Inr 100),
      remote_get_object = (\<lambda>remote nm. None),
      remote_ensure_hdd_valid = (\<lambda>remote sz storage_type nodes nm. None),
      hard_drive_init =
        (\<lambda>cls vm disk_id config.
           if list_all (\<lambda>(k, v). k = ''driver'') config then None
           else Some (TypeError ''__init__() got an unexpected keyword argument'')),
      auth_assert_permission = (\<lambda>vm. None),
      hard_drive_create = (\<lambda>cls sz. None)\<rparr>"

definition empty_factory :: factory where
  "empty_factory = \<lparr>CACHED_OBJECTS = Map.empty, objects = [], pyroDaemon = None\<rparr>"

text \<open>
  The factory after \<open>getObject\<close> for disk 1 of the VM, after a second call with the
  override \<open>driver\<close>, and after a third call without overrides.
\<close>

definition factory_1 :: factory where
  "factory_1 =
     \<lparr>CACHED_OBJECTS = [(''web'', 1, ''Local'') \<mapsto> 0],
      objects = [\<lparr>hd_class = Local_class, hd_vm_name = ''web'', hd_disk_id = Some 1,
                  hd_config = []\<rparr>],
      pyroDaemon = None\<rparr>"

definition factory_2 :: factory where
  "factory_2 =
     \<lparr>CACHED_OBJECTS = Map.empty,
      objects = [\<lparr>hd_class = Local_class, hd_vm_name = ''web'', hd_disk_id = Some 1,
                  hd_config = []\<rparr>,
                 \<lparr>hd_class = Local_class, hd_vm_name = ''web'', hd_disk_id = Some 1,
                  hd_config = [(''driver'', Some ''virtio'')]\<rparr>],
      pyroDaemon = None\<rparr>"

definition factory_3 :: factory where
  "factory_3 =
     \<lparr>CACHED_OBJECTS = [(''web'', 1, ''Local'') \<mapsto> 2],
      objects = [\<lparr>hd_class = Local_class, hd_vm_name = ''web'', hd_disk_id = Some 1,
                  hd_config = []\<rparr>,
                 \<lparr>hd_class = Local_class, hd_vm_name = ''web'', hd_disk_id = Some 1,
                  hd_config = [(''driver'', Some ''virtio'')]\<rparr>,
                 \<lparr>hd_class = Local_class, hd_vm_name = ''web'', hd_disk_id = Some 1,
                  hd_config = []\<rparr>],
      pyroDaemon = None\<rparr>"

section \<open>Properties\<close>

subsection \<open>Commands\<close>

lemma runCommand_raise:
  "runCommand sys c True cwd =
     (if fst (run sys c cwd) \<noteq> 0
      then (Inl (MCVirtCommandException (failure_text sys c (run sys c cwd))), [c])
      else (Inr (run sys c cwd), [c]))"
  by (simp add: runCommand_def split: prod.splits)

text \<open>
  On a node where every command fails, five of the volume methods raise
  \<open>ExternalStorageCommandErrorException\<close>; \<open>snapshot\<close> has no handler.
\<close>

lemma volume_command_failures:
  assumes "\<And>c. fst (run sys c None) \<noteq> 0"
  shows "\<exists>m. fst (LvmVolume_create sys self sz) = Inl (ExternalStorageCommandErrorException m)"
    and "\<exists>m. fst (LvmVolume_delete sys self False) = Inl (ExternalStorageCommandErrorException m)"
    and "\<exists>m. fst (LvmVolume_activate sys self) = Inl (ExternalStorageCommandErrorException m)"
    and "\<exists>m. fst (LvmVolume_resize sys self sz) = Inl (ExternalStorageCommandErrorException m)"
    and "\<exists>m. fst (LvmVolume_get_size sys self) = Inl (ExternalStorageCommandErrorException m)"
    and "\<exists>m. fst (LvmVolume_snapshot sys self dest s) = Inl (MCVirtCommandException m)"
  using assms
  by (simp_all add: LvmVolume_create_def LvmVolume_delete_def LvmVolume_activate_def
        LvmVolume_resize_def LvmVolume_get_size_def LvmVolume_snapshot_def runCommand_raise Let_def)

subsection \<open>Numerals\<close>











subsection \<open>The object cache\<close>

lemma register_object_fields:
  "CACHED_OBJECTS (PyroObject_register_object self r) = CACHED_OBJECTS self
   \<and> objects (PyroObject_register_object self r) = objects self
   \<and> PyroObject_convert_remote_object (PyroObject_register_object self r) v
     = PyroObject_convert_remote_object self v"
  by (cases "pyroDaemon self")
     (simp_all add: PyroObject_register_object_def PyroObject_convert_remote_object_def
        PyroObject_pyro_initialised_def split: option.split)

lemma convert_remote_object_fields:
  "PyroObject_convert_remote_object (self\<lparr>CACHED_OBJECTS := c\<rparr>) v
     = PyroObject_convert_remote_object self v
   \<and> PyroObject_convert_remote_object (self\<lparr>objects := os\<rparr>) v
     = PyroObject_convert_remote_object self v"
  by (cases "pyroDaemon self")
     (simp_all add: PyroObject_convert_remote_object_def PyroObject_pyro_initialised_def
        split: option.split)

lemma evict_absent:
  "CACHED_OBJECTS self k = None
   \<Longrightarrow> self\<lparr>CACHED_OBJECTS := (CACHED_OBJECTS self)(k := None)\<rparr> = self"
  by (simp add: fun_upd_idem)

lemma getObject_storage_type_overrides:
  "(snd (getObject_storage_type vst config) \<noteq> [])
     = (\<exists>k \<in> set (map fst config). k \<noteq> ''storage_type'')"
proof (cases "map_of config ''storage_type''")
  case None
  then have "''storage_type'' \<notin> set (map fst config)"
    by (simp add: map_of_eq_None_iff)
  then show ?thesis using None
    by (cases config) (auto simp add: getObject_storage_type_def)
next
  case (Some v)
  then show ?thesis
    by (force simp add: getObject_storage_type_def filter_empty_conv)
qed


lemma getObject_hit:
  assumes "PyroObject_convert_remote_object self vm_object = Inr vm"
    and "map_of (get_config vm) ''storage_type'' = Some vst"
    and "getObject_storage_type vst config = (st, [])"
    and "CACHED_OBJECTS self (getObject_cache_key vm disk_id st) = Some r"
  shows "Factory_getObject nd self vm_object disk_id config = (Inr r, self)"
  using assms by (simp add: Factory_getObject_def)

lemma getObject_fail:
  assumes "PyroObject_convert_remote_object self vm_object = Inr vm"
    and "map_of (get_config vm) ''storage_type'' = Some vst"
    and "getObject_storage_type vst config = (st, config')"
    and "config' \<noteq> [] \<or> CACHED_OBJECTS self (getObject_cache_key vm disk_id st) = None"
    and "Factory_getClass st = Inl e
         \<or> (\<exists>cls. Factory_getClass st = Inr cls
                \<and> hard_drive_init nd cls vm (Some disk_id) config' = Some e)"
  shows "Factory_getObject nd self vm_object disk_id config
           = (Inl e, self\<lparr>CACHED_OBJECTS :=
                        (CACHED_OBJECTS self)(getObject_cache_key vm disk_id st := None)\<rparr>)"
  using assms by (auto simp add: Factory_getObject_def Let_def evict_absent)

lemma getObject_construct:
  assumes "PyroObject_convert_remote_object self vm_object = Inr vm"
    and "map_of (get_config vm) ''storage_type'' = Some vst"
    and "getObject_storage_type vst config = (st, config')"
    and "config' \<noteq> [] \<or> CACHED_OBJECTS self (getObject_cache_key vm disk_id st) = None"
    and "Factory_getClass st = Inr cls"
    and "hard_drive_init nd cls vm (Some disk_id) config' = None"
  shows "fst (Factory_getObject nd self vm_object disk_id config) = Inr (length (objects self))"
    and "CACHED_OBJECTS (snd (Factory_getObject nd self vm_object disk_id config))
           = (if config' = []
              then (CACHED_OBJECTS self)(getObject_cache_key vm disk_id st \<mapsto> length (objects self))
              else (CACHED_OBJECTS self)(getObject_cache_key vm disk_id st := None))"
    and "objects (snd (Factory_getObject nd self vm_object disk_id config))
           = objects self @ [\<lparr>hd_class = cls, hd_vm_name = get_name vm,
                               hd_disk_id = Some disk_id, hd_config = config'\<rparr>]"
    and "PyroObject_convert_remote_object (snd (Factory_getObject nd self vm_object disk_id config)) v
           = PyroObject_convert_remote_object self v"
  using assms
  by (auto simp add: Factory_getObject_def Let_def register_object_fields
        convert_remote_object_fields evict_absent)


lemma getObject_success_cases:
  assumes conv: "PyroObject_convert_remote_object self vm_object = Inr vm"
    and vst: "map_of (get_config vm) ''storage_type'' = Some vst"
    and res: "getObject_storage_type vst config = (st, config')"
    and ok: "Factory_getObject nd self vm_object disk_id config = (Inr r, self')"
  shows "(config' = [] \<and> CACHED_OBJECTS self (getObject_cache_key vm disk_id st) = Some r
            \<and> self' = self)
         \<or> ((config' \<noteq> [] \<or> CACHED_OBJECTS self (getObject_cache_key vm disk_id st) = None)
            \<and> r = length (objects self)
            \<and> CACHED_OBJECTS self'
                 = (if config' = []
                    then (CACHED_OBJECTS self)(getObject_cache_key vm disk_id st \<mapsto> r)
                    else (CACHED_OBJECTS self)(getObject_cache_key vm disk_id st := None))
            \<and> length (objects self') = Suc (length (objects self))
            \<and> (\<exists>cls. Factory_getClass st = Inr cls
                 \<and> objects self'
                     = objects self @ [\<lparr>hd_class = cls, hd_vm_name = get_name vm,
                                         hd_disk_id = Some disk_id, hd_config = config'\<rparr>])
            \<and> (\<forall>v. PyroObject_convert_remote_object self' v
                     = PyroObject_convert_remote_object self v))"
proof (cases "config' = [] \<and> CACHED_OBJECTS self (getObject_cache_key vm disk_id st) \<noteq> None")
  case True
  then obtain c where c: "CACHED_OBJECTS self (getObject_cache_key vm disk_id st) = Some c"
    by auto
  have "Factory_getObject nd self vm_object disk_id config = (Inr c, self)"
    using conv vst res c True by (intro getObject_hit) simp_all
  then show ?thesis using ok c True by simp
next
  case False
  then have miss: "config' \<noteq> [] \<or> CACHED_OBJECTS self (getObject_cache_key vm disk_id st) = None"
    by auto
  show ?thesis
  proof (cases "Factory_getClass st")
    case (Inl e)
    then have "fst (Factory_getObject nd self vm_object disk_id config) = Inl e"
      using getObject_fail [OF conv vst res miss, of e nd] by simp
    then show ?thesis using ok by simp
  next
    case (Inr cls)
    show ?thesis
    proof (cases "hard_drive_init nd cls vm (Some disk_id) config'")
      case (Some e)
      then have "fst (Factory_getObject nd self vm_object disk_id config) = Inl e"
        using getObject_fail [OF conv vst res miss, of e nd] Inr by simp
      then show ?thesis using ok by simp
    next
      case None
      note c = getObject_construct [OF conv vst res miss Inr None]
      have "r = length (objects self)" using c(1) ok by simp
      moreover have "self' = snd (Factory_getObject nd self vm_object disk_id config)"
        using ok by simp
      ultimately show ?thesis using miss c(2,3,4) Inr by simp
    qed
  qed
qed



lemma allocatedD:
  "cached_objects_allocated self \<Longrightarrow> CACHED_OBJECTS self k = Some r
   \<Longrightarrow> r < length (objects self)"
  unfolding cached_objects_allocated_def by blast

lemma allocated_update:
  assumes "cached_objects_allocated self"
    and "CACHED_OBJECTS self' = (CACHED_OBJECTS self)(k \<mapsto> length (objects self))
         \<or> CACHED_OBJECTS self' = (CACHED_OBJECTS self)(k := None)"
    and "length (objects self') = Suc (length (objects self))"
  shows "cached_objects_allocated self'"
  unfolding cached_objects_allocated_def
proof (intro allI impI)
  fix k' r
  assume c: "CACHED_OBJECTS self' k' = Some r"
  show "r < length (objects self')"
  proof (cases "k' = k")
    case True
    then have "r = length (objects self)" using assms(2) c by auto
    then show ?thesis using assms(3) by simp
  next
    case False
    then have "CACHED_OBJECTS self k' = Some r" using assms(2) c by auto
    then have "r < length (objects self)" using assms(1) by (rule allocatedD [rotated])
    then show ?thesis using assms(3) by simp
  qed
qed

lemma allocated_evict:
  assumes "cached_objects_allocated self"
  shows "cached_objects_allocated (self\<lparr>CACHED_OBJECTS := (CACHED_OBJECTS self)(k := None)\<rparr>)"
  unfolding cached_objects_allocated_def
proof (intro allI impI)
  fix k' r
  assume "CACHED_OBJECTS (self\<lparr>CACHED_OBJECTS := (CACHED_OBJECTS self)(k := None)\<rparr>) k' = Some r"
  then have "CACHED_OBJECTS self k' = Some r"
    by (cases "k' = k") simp_all
  then have "r < length (objects self)"
    using assms by (rule allocatedD [rotated])
  then show "r < length (objects (self\<lparr>CACHED_OBJECTS := (CACHED_OBJECTS self)(k := None)\<rparr>))"
    by simp
qed

text \<open>
  The empty cache has the property, and \<open>getObject\<close> keeps it, whether it returns or
  raises.
\<close>

lemma allocated_empty: "cached_objects_allocated \<lparr>CACHED_OBJECTS = Map.empty, objects = [], pyroDaemon = d\<rparr>"
  by (simp add: cached_objects_allocated_def)

lemma getObject_allocated:
  assumes alloc: "cached_objects_allocated self"
  shows "cached_objects_allocated (snd (Factory_getObject nd self vm_object disk_id config))"
proof (cases "PyroObject_convert_remote_object self vm_object")
  case (Inl e)
  then show ?thesis using alloc by (simp add: Factory_getObject_def)
next
  case (Inr vm)
  note conv = this
  show ?thesis
  proof (cases "map_of (get_config vm) ''storage_type''")
    case None
    then show ?thesis using alloc conv by (simp add: Factory_getObject_def)
  next
    case (Some vst)
    note vst = this
    obtain st config' where res: "getObject_storage_type vst config = (st, config')"
      by (cases "getObject_storage_type vst config")
    let ?k = "getObject_cache_key vm disk_id st"
    show ?thesis
    proof (cases "config' = [] \<and> CACHED_OBJECTS self ?k \<noteq> None")
      case True
      then obtain r where "CACHED_OBJECTS self ?k = Some r" by auto
      then have "Factory_getObject nd self vm_object disk_id config = (Inr r, self)"
        using getObject_hit [OF conv vst, of config st disk_id r nd] res True by simp
      then show ?thesis using alloc by simp
    next
      case False
      then have miss: "config' \<noteq> [] \<or> CACHED_OBJECTS self ?k = None" by auto
      have failed: "cached_objects_allocated (snd (Factory_getObject nd self vm_object disk_id config))"
        if "Factory_getClass st = Inl e
            \<or> (\<exists>cls. Factory_getClass st = Inr cls
                   \<and> hard_drive_init nd cls vm (Some disk_id) config' = Some e)" for e
        unfolding getObject_fail [OF conv vst res miss that] snd_conv
        by (rule allocated_evict [OF alloc])
      show ?thesis
      proof (cases "Factory_getClass st")
        case (Inl e)
        then show ?thesis using failed by blast
      next
        case (Inr cls)
        show ?thesis
        proof (cases "hard_drive_init nd cls vm (Some disk_id) config'")
          case (Some e)
          then show ?thesis using failed Inr by blast
        next
          case None
          note c = getObject_construct [OF conv vst res miss Inr None]
          have "CACHED_OBJECTS (snd (Factory_getObject nd self vm_object disk_id config))
                  = (CACHED_OBJECTS self)(?k \<mapsto> length (objects self))
                \<or> CACHED_OBJECTS (snd (Factory_getObject nd self vm_object disk_id config))
                  = (CACHED_OBJECTS self)(?k := None)"
            using c(2) by (cases "config' = []") simp_all
          moreover have "length (objects (snd (Factory_getObject nd self vm_object disk_id config)))
                           = Suc (length (objects self))"
            using c(3) by simp
          ultimately show ?thesis
            using alloc by (rule allocated_update [rotated])
        qed
      qed
    qed
  qed
qed

lemmas getObject_eval =
  Factory_getObject_def PyroObject_convert_remote_object_def
  PyroObject_pyro_initialised_def PyroObject_register_object_def
  getObject_storage_type_def getObject_cache_key_def Factory_getClass_def
  Factory_getStorageTypes_def STORAGE_TYPES_def example_node_def empty_factory_def
  stopped_vm_def factory_1_def factory_2_def factory_3_def

lemmas ensure_hdd_valid_eval =
  Factory_ensure_hdd_valid_def ensure_hdd_valid_storage_type_def
  ensure_hdd_valid_storage_backend_def Factory_getAvailableStorageTypes_def STORAGE_TYPES_def
  remote_command_def format_i_def

subsection \<open>The storage type of a hard drive object\<close>

text \<open>
  C1, as stated: when both an explicit \<open>storage_type\<close> argument and a storage type in the
  VM configuration are present, the explicit argument is the one chosen. In \<open>getObject\<close>
  it is not: for a VM configured with \<^verbatim>\<open>Local\<close>, the call with
  \<^verbatim>\<open>storage_type='Drbd'\<close> resolves to \<^verbatim>\<open>Local\<close> and constructs a \<open>Local\<close> object,
  cached under the key of \<^verbatim>\<open>Local\<close>.
\<close>

theorem getObject_override_loses_counterexample:
  "map_of (get_config stopped_vm) ''storage_type'' = Some (Some ''Local'')
   \<and> fst (getObject_storage_type (Some ''Local'') [(''storage_type'', Some ''Drbd'')])
       = Some ''Local''
   \<and> Factory_getObject example_node empty_factory stopped_vm 1 [(''storage_type'', Some ''Drbd'')]
       = (Inr 0, factory_1)
   \<and> hd_class (objects factory_1 ! 0) = Local_class"
  by (simp add: getObject_eval)

text \<open>
  C1, amended: in \<open>getObject\<close> the storage type of the VM configuration, when it is set
  (a non-empty string), is the one chosen, whatever the overrides hold; the override
  \<open>storage_type\<close> is chosen only when the VM configuration holds none; without either
  the storage type is \<^verbatim>\<open>None\<close>. The override is removed from the overrides in every
  case. A call that returns gives the object cached under the key of the chosen type, or
  a new object of the class the chosen type names.
\<close>

theorem getObject_storage_type_precedence:
  assumes conv: "PyroObject_convert_remote_object self vm_object = Inr vm"
    and vst: "map_of (get_config vm) ''storage_type'' = Some vst"
  shows "(truthy vst \<longrightarrow> fst (getObject_storage_type vst config) = vst)
         \<and> (\<not> truthy vst \<longrightarrow>
               fst (getObject_storage_type vst config)
                 = (case map_of config ''storage_type'' of None \<Rightarrow> None | Some v \<Rightarrow> v))
         \<and> map_of (snd (getObject_storage_type vst config)) ''storage_type'' = None
         \<and> (\<forall>r self'. Factory_getObject nd self vm_object disk_id config = (Inr r, self') \<longrightarrow>
               CACHED_OBJECTS self
                 (getObject_cache_key vm disk_id (fst (getObject_storage_type vst config))) = Some r
               \<or> (r = length (objects self) \<and> r < length (objects self')
                  \<and> Factory_getClass (fst (getObject_storage_type vst config))
                      = Inr (hd_class (objects self' ! r))))"
proof -
  have a: "truthy vst \<longrightarrow> fst (getObject_storage_type vst config) = vst"
    by (cases vst) (auto simp add: getObject_storage_type_def Let_def split: option.splits)
  have b: "\<not> truthy vst \<longrightarrow>
               fst (getObject_storage_type vst config)
                 = (case map_of config ''storage_type'' of None \<Rightarrow> None | Some v \<Rightarrow> v)"
    by (simp add: getObject_storage_type_def Let_def split: option.splits)
  have c: "map_of (snd (getObject_storage_type vst config)) ''storage_type'' = None"
    by (auto simp add: getObject_storage_type_def Let_def map_of_eq_None_iff split: option.splits)
  obtain st config' where res: "getObject_storage_type vst config = (st, config')"
    by (cases "getObject_storage_type vst config")
  have d: "CACHED_OBJECTS self (getObject_cache_key vm disk_id st) = Some r
           \<or> (r = length (objects self) \<and> r < length (objects self')
              \<and> Factory_getClass st = Inr (hd_class (objects self' ! r)))"
    if "Factory_getObject nd self vm_object disk_id config = (Inr r, self')" for r self'
    using getObject_success_cases [OF conv vst res that] by auto
  show ?thesis using a b c d by (simp add: res)
qed

theorem getObject_storage_type_precedence_witness:
  "truthy (Some ''Local'')
   \<and> fst (getObject_storage_type (Some ''Local'') [(''storage_type'', Some ''Drbd'')])
       = Some ''Local''
   \<and> \<not> truthy (Some [])
   \<and> fst (getObject_storage_type (Some []) [(''storage_type'', Some ''Drbd'')]) = Some ''Drbd''
   \<and> Factory_getObject example_node empty_factory stopped_vm 1 [(''storage_type'', Some ''Drbd'')]
       = (Inr 0, factory_1)
   \<and> Factory_getClass (Some ''Local'') = Inr (hd_class (objects factory_1 ! 0))"
proof -
  have c: "PyroObject_convert_remote_object empty_factory stopped_vm = Inr stopped_vm"
    by (simp add: getObject_eval)
  have v: "map_of (get_config stopped_vm) ''storage_type'' = Some (Some ''Local'')"
    by (simp add: stopped_vm_def)
  have c': "PyroObject_convert_remote_object empty_factory
              (stopped_vm\<lparr>get_config := [(''storage_type'', Some [])]\<rparr>)
            = Inr (stopped_vm\<lparr>get_config := [(''storage_type'', Some [])]\<rparr>)"
    by (simp add: getObject_eval)
  have v': "map_of (get_config (stopped_vm\<lparr>get_config := [(''storage_type'', Some [])]\<rparr>))
              ''storage_type'' = Some (Some [])"
    by simp
  have e: "Factory_getObject example_node empty_factory stopped_vm 1
             [(''storage_type'', Some ''Drbd'')] = (Inr 0, factory_1)"
    by (simp add: getObject_eval)
  note t = getObject_storage_type_precedence
             [OF c v, of "[(''storage_type'', Some ''Drbd'')]" example_node 1]
  note t' = getObject_storage_type_precedence
              [OF c' v', of "[(''storage_type'', Some ''Drbd'')]" example_node 1]
  have p: "fst (getObject_storage_type (Some ''Local'') [(''storage_type'', Some ''Drbd'')])
             = Some ''Local''"
    using t by simp
  have p': "fst (getObject_storage_type (Some []) [(''storage_type'', Some ''Drbd'')])
              = Some ''Drbd''"
    using t' by simp
  have "CACHED_OBJECTS empty_factory
          (getObject_cache_key stopped_vm 1
             (fst (getObject_storage_type (Some ''Local'') [(''storage_type'', Some ''Drbd'')])))
          = Some 0
        \<or> Factory_getClass
             (fst (getObject_storage_type (Some ''Local'') [(''storage_type'', Some ''Drbd'')]))
           = Inr (hd_class (objects factory_1 ! 0))"
    using t e by blast
  then have q: "Factory_getClass (Some ''Local'') = Inr (hd_class (objects factory_1 ! 0))"
    unfolding p by (simp add: empty_factory_def)
  show ?thesis using p p' q e by simp
qed

subsection \<open>Identity of cached objects\<close>



subsection \<open>Validation before a disk is created\<close>

text \<open>
  C3. When \<open>ensure_hdd_valid\<close> is given no storage type (\<^verbatim>\<open>None\<close> or the empty
  string): if the node has no storage type available, or two or more, it raises
  \<open>UnknownStorageTypeException\<close> and calls no remote node; if exactly one is
  available, that one is taken: the call behaves as the call with that type's name given,
  and a call that returns returns that name.
\<close>

theorem ensure_hdd_valid_ambiguity:
  assumes "\<not> truthy storage_type"
  shows "(length (Factory_getAvailableStorageTypes nd) \<noteq> 1 \<longrightarrow>
           (\<exists>msg. Factory_ensure_hdd_valid nd sz storage_type nodes storage_backend
                    = (Inl (UnknownStorageTypeException msg), [])))
         \<and> (\<forall>t. Factory_getAvailableStorageTypes nd = [t] \<longrightarrow>
               ensure_hdd_valid_storage_type nd storage_type = Inr (class_name t)
               \<and> Factory_ensure_hdd_valid nd sz storage_type nodes storage_backend
                   = Factory_ensure_hdd_valid nd sz (Some (class_name t)) nodes storage_backend
               \<and> (\<forall>st evs. Factory_ensure_hdd_valid nd sz storage_type nodes storage_backend
                              = (Inr st, evs) \<longrightarrow> st = class_name t))"
proof -
  have a: "\<exists>msg. Factory_ensure_hdd_valid nd sz storage_type nodes storage_backend
                    = (Inl (UnknownStorageTypeException msg), [])"
    if "length (Factory_getAvailableStorageTypes nd) \<noteq> 1"
    using assms that
    by (auto simp add: Factory_ensure_hdd_valid_def ensure_hdd_valid_storage_type_def Let_def)
  have b: "ensure_hdd_valid_storage_type nd storage_type = Inr (class_name t)
           \<and> ensure_hdd_valid_storage_type nd (Some (class_name t)) = Inr (class_name t)"
    if "Factory_getAvailableStorageTypes nd = [t]" for t
    using assms that by (cases t) (simp_all add: ensure_hdd_valid_storage_type_def)
  have c: "Factory_ensure_hdd_valid nd sz storage_type nodes storage_backend
             = Factory_ensure_hdd_valid nd sz (Some (class_name t)) nodes storage_backend"
    if "Factory_getAvailableStorageTypes nd = [t]" for t
    using b [OF that] by (simp add: Factory_ensure_hdd_valid_def)
  have d: "st = class_name t"
    if "Factory_getAvailableStorageTypes nd = [t]"
      and "Factory_ensure_hdd_valid nd sz storage_type nodes storage_backend = (Inr st, evs)"
    for t st evs
    using b [OF that(1)] that(2)
    by (auto simp add: Factory_ensure_hdd_valid_def Let_def
          split: sum.splits if_splits prod.splits option.splits)
  show ?thesis using a b c d by blast
qed

theorem ensure_hdd_valid_ambiguity_witness:
  "\<not> truthy None
   \<and> Factory_getAvailableStorageTypes example_node = [Local_class]
   \<and> Factory_ensure_hdd_valid example_node 50 None [''node1'', ''node2''] None
       = (Inr ''Local'',
          [Remote_get_object ''node2'' ''local-vg'',
           Remote_ensure_hdd_valid ''node2'' 50 ''Local'' [''node1'', ''node2''] ''local-vg''])
   \<and> length (Factory_getAvailableStorageTypes (example_node\<lparr>Drbd_isAvailable := True\<rparr>)) = 2
   \<and> Factory_ensure_hdd_valid (example_node\<lparr>Drbd_isAvailable := True\<rparr>) 50 None
         [''node1'', ''node2''] None
       = (Inl (UnknownStorageTypeException ''Storage type must be specified''), [])
   \<and> length (Factory_getAvailableStorageTypes (example_node\<lparr>get_all_local := []\<rparr>)) = 0
   \<and> Factory_ensure_hdd_valid (example_node\<lparr>get_all_local := []\<rparr>) 50 None
         [''node1'', ''node2''] None
       = (Inl (UnknownStorageTypeException ''There are no storage types available''), [])"
proof -
  have n: "\<not> truthy None" by simp
  note t1 = ensure_hdd_valid_ambiguity [OF n, of example_node 50 "[''node1'', ''node2'']" None]
  note t2 = ensure_hdd_valid_ambiguity
              [OF n, of "example_node\<lparr>Drbd_isAvailable := True\<rparr>" 50 "[''node1'', ''node2'']" None]
  note t3 = ensure_hdd_valid_ambiguity
              [OF n, of "example_node\<lparr>get_all_local := []\<rparr>" 50 "[''node1'', ''node2'']" None]
  have a1: "Factory_getAvailableStorageTypes example_node = [Local_class]"
    by (simp add: Factory_getAvailableStorageTypes_def STORAGE_TYPES_def example_node_def)
  have a2: "length (Factory_getAvailableStorageTypes (example_node\<lparr>Drbd_isAvailable := True\<rparr>)) = 2"
    by (simp add: Factory_getAvailableStorageTypes_def STORAGE_TYPES_def example_node_def)
  have a3: "length (Factory_getAvailableStorageTypes (example_node\<lparr>get_all_local := []\<rparr>)) = 0"
    by (simp add: Factory_getAvailableStorageTypes_def STORAGE_TYPES_def example_node_def)
  have e1: "Factory_ensure_hdd_valid example_node 50 None [''node1'', ''node2''] None
       = (Inr ''Local'',
          [Remote_get_object ''node2'' ''local-vg'',
           Remote_ensure_hdd_valid ''node2'' 50 ''Local'' [''node1'', ''node2''] ''local-vg''])"
    using t1 a1
    by (simp add: ensure_hdd_valid_eval example_node_def example_backend_def)
  have e2: "Factory_ensure_hdd_valid (example_node\<lparr>Drbd_isAvailable := True\<rparr>) 50 None
         [''node1'', ''node2''] None
       = (Inl (UnknownStorageTypeException ''Storage type must be specified''), [])"
    using t2 a2
    by (simp add: ensure_hdd_valid_eval example_node_def example_backend_def)
  have e3: "Factory_ensure_hdd_valid (example_node\<lparr>get_all_local := []\<rparr>) 50 None
         [''node1'', ''node2''] None
       = (Inl (UnknownStorageTypeException ''There are no storage types available''), [])"
    using t3 a3
    by (simp add: ensure_hdd_valid_eval example_node_def example_backend_def)
  show ?thesis using n a1 a2 a3 e1 e2 e3 by simp
qed

text \<open>
  C4. Once the storage type and the storage backend are resolved, if the free space the
  backend reports is less than the requested size, \<open>ensure_hdd_valid\<close> raises
  \<open>InsufficientSpaceException\<close> with the requested size, the free space (as
  \<^verbatim>\<open>%i\<close> prints it) and the host name, and has called no remote node; \<open>create\<close>, for
  a permitted caller, then raises the same exception with the factory unchanged: no hard
  drive object is constructed and no volume is created.
\<close>

theorem ensure_hdd_valid_insufficient_space:
  assumes st: "ensure_hdd_valid_storage_type nd storage_type = Inr st"
    and sb: "ensure_hdd_valid_storage_backend nd st nodes storage_backend = Inr b"
    and free: "get_free_space nd b = Inr free"
    and lt: "free < of_int sz"
  shows "Factory_ensure_hdd_valid nd sz storage_type nodes storage_backend
           = (Inl (InsufficientSpaceException sz (format_i free) (get_hostname nd)), [])
         \<and> (\<forall>self vm_object vm driver.
               PyroObject_convert_remote_object self vm_object = Inr vm
               \<and> auth_assert_permission nd vm = None \<and> getAvailableNodes vm = nodes \<longrightarrow>
               Factory_create nd self vm_object sz storage_type driver storage_backend
                 = ((Inl (InsufficientSpaceException sz (format_i free) (get_hostname nd)), self),
                    []))"
proof -
  have a: "Factory_ensure_hdd_valid nd sz storage_type nodes storage_backend
           = (Inl (InsufficientSpaceException sz (format_i free) (get_hostname nd)), [])"
    using assms by (simp add: Factory_ensure_hdd_valid_def)
  then show ?thesis
    by (simp add: Factory_create_def)
qed

theorem ensure_hdd_valid_insufficient_space_witness:
  "ensure_hdd_valid_storage_type example_node None = Inr ''Local''
   \<and> ensure_hdd_valid_storage_backend example_node ''Local'' [''node1''] None = Inr example_backend
   \<and> get_free_space example_node example_backend = Inr 100
   \<and> (100 :: rat) < of_int 150
   \<and> Factory_ensure_hdd_valid example_node 150 None [''node1''] None
       = (Inl (InsufficientSpaceException 150 100 ''node1''), [])
   \<and> Factory_create example_node empty_factory stopped_vm 150 None (Some ''virtio'') None
       = ((Inl (InsufficientSpaceException 150 100 ''node1''), empty_factory), [])"
proof -
  have st: "ensure_hdd_valid_storage_type example_node None = Inr ''Local''"
    by (simp add: ensure_hdd_valid_eval example_node_def)
  have sb: "ensure_hdd_valid_storage_backend example_node ''Local'' [''node1''] None
              = Inr example_backend"
    by (simp add: ensure_hdd_valid_eval example_node_def)
  have fr: "get_free_space example_node example_backend = Inr 100"
    by (simp add: example_node_def)
  have lt: "(100 :: rat) < of_int 150" by simp
  have c: "PyroObject_convert_remote_object empty_factory stopped_vm = Inr stopped_vm"
    by (simp add: getObject_eval)
  have p: "auth_assert_permission example_node stopped_vm = None"
    by (simp add: example_node_def)
  have g: "getAvailableNodes stopped_vm = [''node1'']"
    by (simp add: stopped_vm_def)
  have h: "get_hostname example_node = ''node1''"
    by (simp add: example_node_def)
  have f: "format_i 100 = 100"
    by (simp add: format_i_def)
  note t = ensure_hdd_valid_insufficient_space [OF st sb fr lt, unfolded f h]
  have "Factory_create example_node empty_factory stopped_vm 150 None (Some ''virtio'') None
       = ((Inl (InsufficientSpaceException 150 100 ''node1''), empty_factory), [])"
    using t c p g by blast
  then show ?thesis using t st sb fr lt by simp
qed

subsection \<open>Increasing the size of a local disk\<close>

text \<open>
  C5. The claim: \<open>resize\<close> with \<^verbatim>\<open>increase=True\<close> adds the given size to the current
  size, and \<open>Local.increase_size\<close>, which calls \<^verbatim>\<open>volume.resize(increase_size, increase=True)\<close>,
  grows the disk by the requested amount. The code does not: \<open>LvmVolume.resize\<close> is
  \<^verbatim>\<open>def resize(self, size)\<close> and has no parameter \<open>increase\<close>, so the call of
  \<open>increase_size\<close> raises \<^verbatim>\<open>TypeError\<close> before any command runs. Whatever the
  collaborators answer, \<open>increase_size\<close> runs no command and raises; with permission
  granted, the disk existing and the VM stopped and not a clone, the exception is the
  \<^verbatim>\<open>TypeError\<close>. Called on its own, \<open>resize\<close> passes the size to
  \<^verbatim>\<open>lvresize --size\<close> with no sign, which sets the size rather than adding to it.
\<close>

theorem increase_size_never_resizes:
  "snd (Local_increase_size env sys self increase_size) = []
   \<and> (\<exists>e. fst (Local_increase_size env sys self increase_size) = Inl e)
   \<and> Local_increase_size permissive_env failing_system example_local (IntSize 1024)
       = (Inl (TypeError ''resize() got an unexpected keyword argument increase''), [])
   \<and> snd (LvmVolume_resize sys example_volume 1024)
       = [[''/sbin/lvresize'', ''--size'', ''1024M'', ''/dev/vg0/mcvirt_vm-web-disk-1'']]"
proof -
  have a: "snd (Local_increase_size env sys self increase_size) = []
           \<and> (\<exists>e. fst (Local_increase_size env sys self increase_size) = Inl e)"
    by (auto simp add: Local_increase_size_def LvmVolume_resize_call_def
          split: option.splits sum.splits size_arg.splits)
  have b: "Local_increase_size permissive_env failing_system example_local (IntSize 1024)
             = (Inl (TypeError ''resize() got an unexpected keyword argument increase''), [])"
    by (simp add: Local_increase_size_def LvmVolume_resize_call_def permissive_env_def
          example_local_def stopped_vm_def)
  have "str_int 1024 = ''1024''"
    by (simp add: str_int_def)
  then have c: "snd (LvmVolume_resize sys example_volume 1024)
       = [[''/sbin/lvresize'', ''--size'', ''1024M'', ''/dev/vg0/mcvirt_vm-web-disk-1'']]"
    by (simp add: LvmVolume_resize_def runCommand_raise LvmVolume_get_path_def get_location_def
          example_volume_def example_backend_def Let_def)
  show ?thesis using a b c by simp
qed

subsection \<open>Failures of the external tools\<close>

text \<open>
  C6. The claim: every LVM volume operation that runs an external tool (create, delete,
  activate, resize, snapshot, get_size) maps a non-zero exit into
  \<open>ExternalStorageCommandErrorException\<close>, and none lets the raw command failure
  escape. \<open>snapshot\<close> does: it calls \<^verbatim>\<open>System.runCommand\<close> outside any
  \<^verbatim>\<open>try\<close>, so on a node where \<^verbatim>\<open>lvcreate\<close> exits with 5 the
  \<open>MCVirtCommandException\<close> reaches the caller as it is, while \<open>activate\<close> on the same
  node raises \<open>ExternalStorageCommandErrorException\<close>.
\<close>

theorem snapshot_failure_escapes:
  "LvmVolume_snapshot failing_system example_volume example_snapshot_volume ''512M''
     = (Inl (MCVirtCommandException ''Volume group not found''),
        [[''lvcreate'', ''--snapshot'', ''/dev/vg0/mcvirt_vm-web-disk-1'',
          ''--name'', ''mcvirt_vm-web-disk-1_snapshot'', ''--size'', ''512M'']])
   \<and> fst (LvmVolume_activate failing_system example_volume)
     = Inl (ExternalStorageCommandErrorException
              (''Error whilst activating logical volume:'' @ [CHR 0x0A] @ ''Volume group not found''))"
  by (simp add: LvmVolume_snapshot_def LvmVolume_activate_def runCommand_def LvmVolume_get_path_def
        get_location_def failing_system_def example_volume_def example_snapshot_volume_def
        example_backend_def)

subsection \<open>Free space of a volume group\<close>




subsection \<open>Deleting a volume\<close>

text \<open>
  C8. When \<open>check_exists\<close> is false and \<open>ignore_non_existent\<close> is true, \<open>delete\<close> runs
  no command and returns. When \<open>ignore_non_existent\<close> is false, or the volume exists,
  it runs \<^verbatim>\<open>lvremove -f\<close> on the volume's path, once; a non-zero exit is raised as
  \<open>ExternalStorageCommandErrorException\<close> with the text of the failure, and a zero
  exit returns.
\<close>

theorem delete_ignore_non_existent:
  "(ignore_non_existent \<and> \<not> LvmVolume_check_exists sys self \<longrightarrow>
      LvmVolume_delete sys self ignore_non_existent = (Inr (), []))
   \<and> (\<not> ignore_non_existent \<or> LvmVolume_check_exists sys self \<longrightarrow>
        snd (LvmVolume_delete sys self ignore_non_existent)
          = [[''lvremove'', ''-f'', LvmVolume_get_path self]]
        \<and> fst (LvmVolume_delete sys self ignore_non_existent)
          = (if fst (run sys [''lvremove'', ''-f'', LvmVolume_get_path self] None) \<noteq> 0
             then Inl (ExternalStorageCommandErrorException
                    (''Error whilst removing logical volume:'' @ [CHR 0x0A] @
                     failure_text sys [''lvremove'', ''-f'', LvmVolume_get_path self]
                       (run sys [''lvremove'', ''-f'', LvmVolume_get_path self] None)))
             else Inr ()))"
  by (auto simp add: LvmVolume_delete_def runCommand_raise Let_def)

theorem delete_ignore_non_existent_witness:
  "\<not> LvmVolume_check_exists failing_system example_volume
   \<and> LvmVolume_delete failing_system example_volume True = (Inr (), [])
   \<and> LvmVolume_delete failing_system example_volume False
       = (Inl (ExternalStorageCommandErrorException
                 (''Error whilst removing logical volume:'' @ [CHR 0x0A] @ ''Volume group not found'')),
          [[''lvremove'', ''-f'', ''/dev/vg0/mcvirt_vm-web-disk-1'']])"
  using delete_ignore_non_existent [of True failing_system example_volume]
        delete_ignore_non_existent [of False failing_system example_volume]
  by (simp add: LvmVolume_check_exists_def LvmVolume_get_path_def get_location_def
        failing_system_def example_volume_def example_backend_def prod_eq_iff)

subsection \<open>Migration of a local disk\<close>

text \<open>
  C9. \<open>preMigrationChecks\<close> of a \<open>Local\<close> hard drive raises
  \<open>CannotMigrateLocalDiskException\<close> exactly when the \<open>shared\<close> flag of its storage
  backend is false; it raises nothing else, and returns exactly when the flag is true.
\<close>

theorem preMigrationChecks_shared:
  "((\<exists>msg. Local_preMigrationChecks self = Inl (CannotMigrateLocalDiskException msg))
      = (\<not> sb_shared (local_storage_backend self)))
   \<and> ((\<exists>e. Local_preMigrationChecks self = Inl e) = (\<not> sb_shared (local_storage_backend self)))
   \<and> ((Local_preMigrationChecks self = Inr ()) = sb_shared (local_storage_backend self))"
  by (auto simp add: Local_preMigrationChecks_def)

subsection \<open>Eviction when construction fails\<close>

text \<open>
  C10. When the overrides of \<open>getObject\<close> hold a key other than \<open>storage_type\<close>, the
  cache holds an entry under the key of the call, and the construction raises (the class
  lookup of \<open>getClass\<close>, or the constructor), \<open>getObject\<close> raises that exception and
  leaves the factory with the entry removed: the eviction is not undone.
\<close>

theorem getObject_eviction_not_rolled_back:
  assumes conv: "PyroObject_convert_remote_object self vm_object = Inr vm"
    and vst: "map_of (get_config vm) ''storage_type'' = Some vst"
    and override: "\<exists>k \<in> set (map fst config). k \<noteq> ''storage_type''"
    and cached: "CACHED_OBJECTS self
                   (getObject_cache_key vm disk_id (fst (getObject_storage_type vst config)))
                   = Some r"
    and fails: "Factory_getClass (fst (getObject_storage_type vst config)) = Inl e
                \<or> (\<exists>cls. Factory_getClass (fst (getObject_storage_type vst config)) = Inr cls
                      \<and> hard_drive_init nd cls vm (Some disk_id)
                            (snd (getObject_storage_type vst config)) = Some e)"
  shows "Factory_getObject nd self vm_object disk_id config
           = (Inl e,
              self\<lparr>CACHED_OBJECTS :=
                     (CACHED_OBJECTS self)
                       (getObject_cache_key vm disk_id (fst (getObject_storage_type vst config))
                          := None)\<rparr>)
         \<and> CACHED_OBJECTS (snd (Factory_getObject nd self vm_object disk_id config))
               (getObject_cache_key vm disk_id (fst (getObject_storage_type vst config))) = None"
proof -
  obtain st config' where res: "getObject_storage_type vst config = (st, config')"
    by (cases "getObject_storage_type vst config")
  have ne: "config' \<noteq> []"
    using override getObject_storage_type_overrides [of vst config] res by simp
  have "Factory_getObject nd self vm_object disk_id config
           = (Inl e, self\<lparr>CACHED_OBJECTS :=
                        (CACHED_OBJECTS self)(getObject_cache_key vm disk_id st := None)\<rparr>)"
    using fails ne unfolding res fst_conv snd_conv
    by (intro getObject_fail [OF conv vst res]) simp_all
  then show ?thesis by (simp add: res)
qed

theorem getObject_eviction_not_rolled_back_witness:
  "CACHED_OBJECTS factory_1 (''web'', 1, ''Local'') = Some 0
   \<and> Factory_getClass (Some ''Local'') = Inr Local_class
   \<and> hard_drive_init example_node Local_class stopped_vm (Some 1) [(''bogus'', Some ''x'')]
       = Some (TypeError ''__init__() got an unexpected keyword argument'')
   \<and> Factory_getObject example_node factory_1 stopped_vm 1 [(''bogus'', Some ''x'')]
       = (Inl (TypeError ''__init__() got an unexpected keyword argument''),
          factory_1\<lparr>CACHED_OBJECTS := Map.empty\<rparr>)"
proof -
  have c: "PyroObject_convert_remote_object factory_1 stopped_vm = Inr stopped_vm"
    by (simp add: getObject_eval)
  have v: "map_of (get_config stopped_vm) ''storage_type'' = Some (Some ''Local'')"
    by (simp add: stopped_vm_def)
  have o: "\<exists>k \<in> set (map fst [(''bogus'', Some ''x'')]). k \<noteq> ''storage_type''"
    by simp
  have k: "CACHED_OBJECTS factory_1
             (getObject_cache_key stopped_vm 1
                (fst (getObject_storage_type (Some ''Local'') [(''bogus'', Some ''x'')])))
           = Some 0"
    by (simp add: getObject_eval)
  have g: "Factory_getClass (Some ''Local'') = Inr Local_class"
    by (simp add: getObject_eval)
  have i: "hard_drive_init example_node Local_class stopped_vm (Some 1) [(''bogus'', Some ''x'')]
             = Some (TypeError ''__init__() got an unexpected keyword argument'')"
    by (simp add: example_node_def)
  have f: "Factory_getClass (fst (getObject_storage_type (Some ''Local'') [(''bogus'', Some ''x'')]))
             = Inl (TypeError ''__init__() got an unexpected keyword argument'')
           \<or> (\<exists>cls. Factory_getClass
                       (fst (getObject_storage_type (Some ''Local'') [(''bogus'', Some ''x'')]))
                     = Inr cls
                 \<and> hard_drive_init example_node cls stopped_vm (Some 1)
                       (snd (getObject_storage_type (Some ''Local'') [(''bogus'', Some ''x'')]))
                     = Some (TypeError ''__init__() got an unexpected keyword argument''))"
    using g i by (simp add: getObject_storage_type_def)
  show ?thesis
    using getObject_eviction_not_rolled_back [OF c v o k f] g i
    by (simp add: getObject_storage_type_def getObject_cache_key_def stopped_vm_def factory_1_def)
qed

end
